theory Spec2Isabelle
  imports Main
begin

section \<open>Values of the request and of the store\<close>

text \<open>
  The server keeps two MongoDB collections, \<open>users\<close> and \<open>tweets\<close>, and serves five
  routes. Every handler has the same shape: validate the body with a Joi schema, do one
  or two point operations on a collection, answer with a status code. The model below is
  a handler-by-handler transcription of the five-route server; the shorter variant of the
  same file has the first three handlers, written identically.

  A request body is what the \<open>express.json()\<close> parser hands to the handler: a parsed
  JSON value. An object is a list of its properties in order, each key occurring once.
  Numbers are kept as integers: the handlers only ask whether a value is a string and
  whether it is truthy.
\<close>

datatype json =
    JNull
  | JBool bool
  | JNum int
  | JStr string
  | JArr "json list"
  | JObj "(string \<times> json) list"

text \<open>Property access \<open>body.key\<close>: \<open>None\<close> stands for JavaScript's \<open>undefined\<close>.\<close>

definition property :: "json \<Rightarrow> string \<Rightarrow> json option" where
  "property v k = (case v of JObj kvs \<Rightarrow> map_of kvs k | _ \<Rightarrow> None)"

text \<open>JavaScript truthiness, as used by \<open>user?.avatar || null\<close>.\<close>

fun truthy :: "json \<Rightarrow> bool" where
  "truthy JNull = False"
| "truthy (JBool b) = b"
| "truthy (JNum n) = (n \<noteq> 0)"
| "truthy (JStr s) = (s \<noteq> [])"
| "truthy (JArr xs) = True"
| "truthy (JObj kvs) = True"

text \<open>
  \<open>x || null\<close> where \<open>x\<close> may be \<open>undefined\<close>: the value itself when it is truthy,
  \<open>null\<close> otherwise.
\<close>

definition or_null :: "json option \<Rightarrow> json" where
  "or_null x = (case x of None \<Rightarrow> JNull | Some v \<Rightarrow> if truthy v then v else JNull)"

subsection \<open>Identities\<close>

text \<open>
  An \<open>ObjectId\<close> is twelve bytes, kept here as the number they spell. The constructor
  \<open>new ObjectId(id)\<close> accepts a string of 24 hexadecimal digits (either case) and throws
  on any other string.
\<close>

type_synonym objectid = nat

datatype exn = BSONError | DuplicateKey

definition hex_digits :: "(char \<times> nat) list" where
  "hex_digits =
     [(CHR ''0'', 0), (CHR ''1'', 1), (CHR ''2'', 2), (CHR ''3'', 3), (CHR ''4'', 4),
      (CHR ''5'', 5), (CHR ''6'', 6), (CHR ''7'', 7), (CHR ''8'', 8), (CHR ''9'', 9),
      (CHR ''a'', 10), (CHR ''b'', 11), (CHR ''c'', 12), (CHR ''d'', 13), (CHR ''e'', 14),
      (CHR ''f'', 15),
      (CHR ''A'', 10), (CHR ''B'', 11), (CHR ''C'', 12), (CHR ''D'', 13), (CHR ''E'', 14),
      (CHR ''F'', 15)]"

fun hex_value :: "nat \<Rightarrow> string \<Rightarrow> nat option" where
  "hex_value acc [] = Some acc"
| "hex_value acc (c # cs) =
     (case map_of hex_digits c of
        None \<Rightarrow> None
      | Some d \<Rightarrow> hex_value (16 * acc + d) cs)"

definition ObjectId :: "string \<Rightarrow> exn + objectid" where
  "ObjectId s =
     (if length s = 24 then
        (case hex_value 0 s of None \<Rightarrow> Inl BSONError | Some n \<Rightarrow> Inr n)
      else Inl BSONError)"

subsection \<open>Documents and collections\<close>

text \<open>
  Documents have the shape the handlers insert. The avatar of a stored user is a
  JavaScript value that may be absent: the listing handler itself guards against that
  with \<open>user?.avatar || null\<close>.
\<close>

record doc =
  oid :: objectid
  username :: string

record user_doc = doc +
  avatar :: "json option"

record tweet_doc = doc +
  tweet :: string

record db =
  usersCollection :: "user_doc list"
  tweetsCollection :: "tweet_doc list"

text \<open>
  A collection is the list of its documents in insertion order, which is the order
  \<open>find().toArray()\<close> returns them in. A query such as \<open>{ username }\<close> or
  \<open>{ _id: objectId }\<close> is the predicate it stands for.
\<close>

definition by_username :: "string \<Rightarrow> 'a doc_scheme \<Rightarrow> bool" where
  "by_username u d = (username d = u)"

definition by_id :: "objectid \<Rightarrow> 'a doc_scheme \<Rightarrow> bool" where
  "by_id i d = (oid d = i)"

text \<open>\<open>findOne\<close> returns the first matching document, or \<open>null\<close>.\<close>

definition findOne :: "('a \<Rightarrow> bool) \<Rightarrow> 'a list \<Rightarrow> 'a option" where
  "findOne q coll = find q coll"

text \<open>
  \<open>insertOne\<close> appends the document. The driver has already given it an identity; the
  store refuses an identity that is taken (the unique index on \<open>_id\<close>), and the driver
  then throws.
\<close>

definition insertOne :: "'a doc_scheme list \<Rightarrow> 'a doc_scheme \<Rightarrow> exn + 'a doc_scheme list" where
  "insertOne coll d =
     (if oid d \<in> set (map oid coll) then Inl DuplicateKey else Inr (coll @ [d]))"

record update_result =
  matchedCount :: nat
  modifiedCount :: nat

text \<open>
  \<open>updateOne\<close> applies the update to the first matching document. \<open>modifiedCount\<close> is 0
  when the update leaves that document as it was.
\<close>

fun updateOne :: "('a \<Rightarrow> bool) \<Rightarrow> ('a \<Rightarrow> 'a) \<Rightarrow> 'a list \<Rightarrow> 'a list \<times> update_result" where
  "updateOne q f [] = ([], \<lparr>matchedCount = 0, modifiedCount = 0\<rparr>)"
| "updateOne q f (d # ds) =
     (if q d then
        (f d # ds, \<lparr>matchedCount = 1, modifiedCount = (if f d = d then 0 else 1)\<rparr>)
      else
        (case updateOne q f ds of (ds', r) \<Rightarrow> (d # ds', r)))"

text \<open>\<open>deleteOne\<close> removes the first matching document.\<close>

fun deleteOne :: "('a \<Rightarrow> bool) \<Rightarrow> 'a list \<Rightarrow> 'a list" where
  "deleteOne q [] = []"
| "deleteOne q (d # ds) = (if q d then ds else d # deleteOne q ds)"

section \<open>Validation schemas\<close>

text \<open>
  Joi reports the first failure (\<open>abortEarly\<close>). \<open>Joi.string().required()\<close> refuses a
  missing property, a value that is not a string, and the empty string;
  \<open>.uri()\<close> then asks for a well-formed URI. An object schema checks its keys in the
  order they are declared and refuses any other key. The URI grammar is Joi's own, so it
  is a parameter \<open>isUri\<close> of the user schema.

  A schema returns the error or the validated value; the handlers destructure
  \<open>req.body\<close>, whose properties are those of the validated value (no conversion is
  configured).
\<close>

datatype joi_error =
    ObjectBase
  | AnyRequired string
  | StringBase string
  | StringEmpty string
  | StringUri string
  | ObjectUnknown string

definition joi_string_required :: "string \<Rightarrow> json option \<Rightarrow> joi_error + string" where
  "joi_string_required k v =
     (case v of
        None \<Rightarrow> Inl (AnyRequired k)
      | Some (JStr s) \<Rightarrow> if s = [] then Inl (StringEmpty k) else Inr s
      | Some _ \<Rightarrow> Inl (StringBase k))"

definition joi_string_uri_required ::
  "(string \<Rightarrow> bool) \<Rightarrow> string \<Rightarrow> json option \<Rightarrow> joi_error + string" where
  "joi_string_uri_required isUri k v =
     (case joi_string_required k v of
        Inl e \<Rightarrow> Inl e
      | Inr s \<Rightarrow> if isUri s then Inr s else Inl (StringUri k))"

definition joi_unknown_key :: "string list \<Rightarrow> (string \<times> json) list \<Rightarrow> string option" where
  "joi_unknown_key keys kvs = find (\<lambda>k. k \<notin> set keys) (map fst kvs)"

definition userSchema :: "(string \<Rightarrow> bool) \<Rightarrow> json \<Rightarrow> joi_error + (string \<times> string)" where
  "userSchema isUri body =
     (case body of
        JObj kvs \<Rightarrow>
          (case joi_string_required ''username'' (map_of kvs ''username'') of
             Inl e \<Rightarrow> Inl e
           | Inr u \<Rightarrow>
              (case joi_string_uri_required isUri ''avatar'' (map_of kvs ''avatar'') of
                 Inl e \<Rightarrow> Inl e
               | Inr a \<Rightarrow>
                  (case joi_unknown_key [''username'', ''avatar''] kvs of
                     Some k \<Rightarrow> Inl (ObjectUnknown k)
                   | None \<Rightarrow> Inr (u, a))))
      | _ \<Rightarrow> Inl ObjectBase)"

definition tweetSchema :: "json \<Rightarrow> joi_error + (string \<times> string)" where
  "tweetSchema body =
     (case body of
        JObj kvs \<Rightarrow>
          (case joi_string_required ''username'' (map_of kvs ''username'') of
             Inl e \<Rightarrow> Inl e
           | Inr u \<Rightarrow>
              (case joi_string_required ''tweet'' (map_of kvs ''tweet'') of
                 Inl e \<Rightarrow> Inl e
               | Inr t \<Rightarrow>
                  (case joi_unknown_key [''username'', ''tweet''] kvs of
                     Some k \<Rightarrow> Inl (ObjectUnknown k)
                   | None \<Rightarrow> Inr (u, t))))
      | _ \<Rightarrow> Inl ObjectBase)"

section \<open>Responses\<close>

text \<open>
  A response is its status code and its payload: nothing, a text message (the wording
  is not modelled), or the JSON array of the listing.
\<close>

record tweet_with_avatar = tweet_doc +
  entry_avatar :: json

datatype payload = NoBody | Text | Json "tweet_with_avatar list"

record response =
  status :: nat
  body :: payload

definition send_text :: "nat \<Rightarrow> response" where
  "send_text code = \<lparr>status = code, body = Text\<rparr>"

definition send_empty :: "nat \<Rightarrow> response" where
  "send_empty code = \<lparr>status = code, body = NoBody\<rparr>"

definition send_json :: "nat \<Rightarrow> tweet_with_avatar list \<Rightarrow> response" where
  "send_json code es = \<lparr>status = code, body = Json es\<rparr>"

section \<open>The handlers\<close>

text \<open>
  Each handler takes the store and returns the store and the response. The two
  inserting handlers also take \<open>gen\<close>, the identity the driver creates for the new
  document. A \<open>try\<close> block is a computation in \<open>exn + _\<close>; the \<open>catch\<close> answers from the
  store as it was, since every throwing operation precedes the handler's write.
\<close>

text \<open>POST /sign-up\<close>

definition sign_up :: "(string \<Rightarrow> bool) \<Rightarrow> objectid \<Rightarrow> db \<Rightarrow> json \<Rightarrow> db \<times> response" where
  "sign_up isUri gen s reqBody =
     (case userSchema isUri reqBody of
        Inl error \<Rightarrow> (s, send_text 422)
      | Inr (username', avatar') \<Rightarrow>
         (case findOne (by_username username') (usersCollection s) of
            Some existingUser \<Rightarrow> (s, send_text 409)
          | None \<Rightarrow>
             (case insertOne (usersCollection s)
                     \<lparr>oid = gen, username = username', avatar = Some (JStr avatar')\<rparr> of
                Inl err \<Rightarrow> (s, send_text 500)
              | Inr users' \<Rightarrow> (s\<lparr>usersCollection := users'\<rparr>, send_text 201))))"

text \<open>POST /tweets\<close>

definition post_tweets :: "objectid \<Rightarrow> db \<Rightarrow> json \<Rightarrow> db \<times> response" where
  "post_tweets gen s reqBody =
     (case tweetSchema reqBody of
        Inl error \<Rightarrow> (s, send_text 422)
      | Inr (username', tweet') \<Rightarrow>
         (case findOne (by_username username') (usersCollection s) of
            None \<Rightarrow> (s, send_text 401)
          | Some existingUser \<Rightarrow>
             (case insertOne (tweetsCollection s)
                     \<lparr>oid = gen, username = username', tweet = tweet'\<rparr> of
                Inl err \<Rightarrow> (s, send_text 500)
              | Inr tweets' \<Rightarrow> (s\<lparr>tweetsCollection := tweets'\<rparr>, send_text 201))))"

text \<open>GET /tweets\<close>

definition tweetWithAvatar :: "user_doc list \<Rightarrow> tweet_doc \<Rightarrow> tweet_with_avatar" where
  "tweetWithAvatar users t =
     (let user = findOne (by_username (username t)) users in
      \<lparr>oid = oid t, username = username t, tweet = tweet t,
       entry_avatar = or_null (case user of None \<Rightarrow> None | Some u \<Rightarrow> avatar u)\<rparr>)"

definition get_tweets :: "db \<Rightarrow> db \<times> response" where
  "get_tweets s =
     (let tweets = tweetsCollection s;
          resolvedTweets = map (tweetWithAvatar (usersCollection s)) tweets
      in (s, send_json 200 (rev resolvedTweets)))"

text \<open>PUT /tweets/:id\<close>

definition put_tweets :: "db \<Rightarrow> string \<Rightarrow> json \<Rightarrow> db \<times> response" where
  "put_tweets s id' reqBody =
     (case tweetSchema reqBody of
        Inl error \<Rightarrow> (s, send_text 422)
      | Inr (username', tweet') \<Rightarrow>
         (case ObjectId id' of
            Inl err \<Rightarrow> (s, send_text 404)
          | Inr objectId \<Rightarrow>
             (case findOne (by_id objectId) (tweetsCollection s) of
                None \<Rightarrow> (s, send_text 404)
              | Some existingTweet \<Rightarrow>
                 if username existingTweet \<noteq> username' then (s, send_text 403)
                 else
                   (case updateOne (by_id objectId) (\<lambda>d. d\<lparr>tweet := tweet'\<rparr>)
                           (tweetsCollection s) of
                      (tweets', result) \<Rightarrow>
                        if modifiedCount result = 0
                        then (s\<lparr>tweetsCollection := tweets'\<rparr>, send_text 304)
                        else (s\<lparr>tweetsCollection := tweets'\<rparr>, send_empty 204)))))"

text \<open>DELETE /tweets/:id\<close>

definition delete_tweets :: "db \<Rightarrow> string \<Rightarrow> db \<times> response" where
  "delete_tweets s id' =
     (case ObjectId id' of
        Inl err \<Rightarrow> (s, send_text 404)
      | Inr objectId \<Rightarrow>
         (case findOne (by_id objectId) (tweetsCollection s) of
            None \<Rightarrow> (s, send_text 404)
          | Some existingTweet \<Rightarrow>
             (s\<lparr>tweetsCollection := deleteOne (by_id objectId) (tweetsCollection s)\<rparr>,
              send_empty 204)))"

subsection \<open>Requests in sequence\<close>

datatype request =
    SignUp objectid json
  | PostTweets objectid json
  | GetTweets
  | PutTweets string json
  | DeleteTweets string

fun handle :: "(string \<Rightarrow> bool) \<Rightarrow> db \<Rightarrow> request \<Rightarrow> db \<times> response" where
  "handle isUri s (SignUp gen b) = sign_up isUri gen s b"
| "handle isUri s (PostTweets gen b) = post_tweets gen s b"
| "handle isUri s GetTweets = get_tweets s"
| "handle isUri s (PutTweets id' b) = put_tweets s id' b"
| "handle isUri s (DeleteTweets id') = delete_tweets s id'"

fun serve :: "(string \<Rightarrow> bool) \<Rightarrow> db \<Rightarrow> request list \<Rightarrow> db" where
  "serve isUri s [] = s"
| "serve isUri s (r # rs) = serve isUri (fst (handle isUri s r)) rs"

subsection \<open>The data model of a user\<close>

text \<open>
  A user document as the data model has it, and as sign-up writes it: the avatar is a
  string, and not the empty one.
\<close>

definition user_model :: "user_doc \<Rightarrow> bool" where
  "user_model d = (case avatar d of Some (JStr a) \<Rightarrow> a \<noteq> [] | _ \<Rightarrow> False)"

subsection \<open>Example requests and stores\<close>

text \<open>
  The examples use a crude stand-in for Joi's URI test (the string starts with
  \<open>https://\<close>); the theorems hold for any test.
\<close>

definition https_only :: "string \<Rightarrow> bool" where
  "https_only a = (take 8 a = ''https://'')"

definition store_empty :: db where
  "store_empty = \<lparr>usersCollection = [], tweetsCollection = []\<rparr>"

definition store_ab :: db where
  "store_ab =
     \<lparr>usersCollection =
        [\<lparr>oid = 1, username = ''a'', avatar = Some (JStr ''https://x/y.png'')\<rparr>],
      tweetsCollection =
        [\<lparr>oid = 1, username = ''a'', tweet = ''hi''\<rparr>,
         \<lparr>oid = 2, username = ''b'', tweet = ''yo''\<rparr>]\<rparr>"

definition store_no_avatar :: db where
  "store_no_avatar =
     \<lparr>usersCollection = [\<lparr>oid = 1, username = ''a'', avatar = None\<rparr>],
      tweetsCollection =
        [\<lparr>oid = 1, username = ''b'', tweet = ''yo''\<rparr>,
         \<lparr>oid = 2, username = ''a'', tweet = ''hi''\<rparr>]\<rparr>"

definition body_user_a :: json where
  "body_user_a = JObj [(''username'', JStr ''a''), (''avatar'', JStr ''https://x/y.png'')]"

definition body_tweet :: "string \<Rightarrow> string \<Rightarrow> json" where
  "body_tweet u t = JObj [(''username'', JStr u), (''tweet'', JStr t)]"

section \<open>Facts about the collection operations and the schemas\<close>

lemma findOne_None: "findOne q coll = None \<longleftrightarrow> (\<forall>d\<in>set coll. \<not> q d)"
  by (auto simp: findOne_def find_None_iff)

text \<open>What \<open>findOne\<close> returns is the first match: nothing before it matches.\<close>

lemma findOne_split:
  "findOne q coll = Some t \<Longrightarrow>
     \<exists>pre post. coll = pre @ t # post \<and> q t \<and> (\<forall>d\<in>set pre. \<not> q d)"
proof (induction coll)
  case Nil
  then show ?case by (simp add: findOne_def)
next
  case (Cons d ds)
  show ?case
  proof (cases "q d")
    case True
    with Cons.prems have "d = t" by (simp add: findOne_def)
    with True have "d # ds = [] @ t # ds \<and> q t \<and> (\<forall>x\<in>set []. \<not> q x)" by simp
    then show ?thesis by blast
  next
    case False
    with Cons.prems have "findOne q ds = Some t" by (simp add: findOne_def)
    from Cons.IH [OF this] obtain pre post
      where "ds = pre @ t # post" "q t" "\<forall>x\<in>set pre. \<not> q x" by blast
    with False have "d # ds = (d # pre) @ t # post \<and> q t \<and> (\<forall>x\<in>set (d # pre). \<not> q x)"
      by simp
    then show ?thesis by blast
  qed
qed

lemma findOne_Some_intro:
  "d \<in> set coll \<Longrightarrow> q d \<Longrightarrow> \<exists>t. findOne q coll = Some t"
  by (cases "findOne q coll") (auto simp: findOne_None)

lemma deleteOne_split:
  "(\<forall>d\<in>set pre. \<not> q d) \<Longrightarrow> q t \<Longrightarrow> deleteOne q (pre @ t # post) = pre @ post"
  by (induction pre) auto

lemma updateOne_split:
  "(\<forall>d\<in>set pre. \<not> q d) \<Longrightarrow> q t \<Longrightarrow>
     updateOne q f (pre @ t # post) =
       (pre @ f t # post, \<lparr>matchedCount = 1, modifiedCount = (if f t = t then 0 else 1)\<rparr>)"
  by (induction pre) auto

text \<open>A body that passes the user schema has a string username and a URI avatar.\<close>

lemma userSchema_Inr:
  "userSchema isUri b = Inr (u, a) \<Longrightarrow>
     property b ''username'' = Some (JStr u) \<and> property b ''avatar'' = Some (JStr a) \<and>
     isUri a"
  by (auto simp: userSchema_def property_def joi_string_required_def
      joi_string_uri_required_def
      split: json.splits sum.splits option.splits if_splits)

subsection \<open>Only sign-up writes to the users collection\<close>

lemma sign_up_users_distinct:
  assumes "distinct (map username (usersCollection s))"
  shows "distinct (map username (usersCollection (fst (sign_up isUri gen s b))))"
proof (cases "userSchema isUri b")
  case (Inl e)
  with assms show ?thesis by (simp add: sign_up_def)
next
  case (Inr p)
  obtain u a where p: "p = (u, a)" by (cases p)
  show ?thesis
  proof (cases "findOne (by_username u) (usersCollection s)")
    case (Some d)
    with Inr p assms show ?thesis by (simp add: sign_up_def)
  next
    case None
    then have "u \<notin> set (map username (usersCollection s))"
      by (auto simp: findOne_None by_username_def)
    with Inr p None assms show ?thesis
      by (simp add: sign_up_def insertOne_def)
  qed
qed

lemma post_tweets_users: "usersCollection (fst (post_tweets gen s b)) = usersCollection s"
  by (simp add: post_tweets_def split: sum.splits option.splits prod.splits)

lemma get_tweets_users: "usersCollection (fst (get_tweets s)) = usersCollection s"
  by (simp add: get_tweets_def Let_def)

lemma put_tweets_users: "usersCollection (fst (put_tweets s i b)) = usersCollection s"
  by (simp add: put_tweets_def split: sum.splits option.splits prod.splits)

lemma delete_tweets_users: "usersCollection (fst (delete_tweets s i)) = usersCollection s"
  by (simp add: delete_tweets_def split: sum.splits option.splits)

lemma handle_users_distinct:
  "distinct (map username (usersCollection s)) \<Longrightarrow>
     distinct (map username (usersCollection (fst (handle isUri s r))))"
  by (cases r)
    (simp_all add: sign_up_users_distinct post_tweets_users get_tweets_users
      put_tweets_users delete_tweets_users)

lemma serve_users_distinct:
  "distinct (map username (usersCollection s)) \<Longrightarrow>
     distinct (map username (usersCollection (serve isUri s rs)))"
  by (induction rs arbitrary: s) (simp_all add: handle_users_distinct)

subsection \<open>Every store that requests build satisfies the data model\<close>

lemma userSchema_Inr_nonempty: "userSchema isUri b = Inr (u, a) \<Longrightarrow> a \<noteq> []"
  by (auto simp: userSchema_def joi_string_required_def joi_string_uri_required_def
      split: json.splits sum.splits option.splits if_splits)

lemma sign_up_user_model:
  assumes "\<forall>d \<in> set (usersCollection s). user_model d"
  shows "\<forall>d \<in> set (usersCollection (fst (sign_up isUri gen s b))). user_model d"
proof (cases "userSchema isUri b")
  case (Inl e)
  with assms show ?thesis by (simp add: sign_up_def)
next
  case (Inr p)
  obtain u a where p: "p = (u, a)" by (cases p)
  with Inr have "a \<noteq> []" by (simp add: userSchema_Inr_nonempty)
  then have "user_model \<lparr>oid = gen, username = u, avatar = Some (JStr a)\<rparr>"
    by (simp add: user_model_def)
  with Inr p assms show ?thesis
    by (auto simp: sign_up_def insertOne_def split: option.splits if_splits)
qed

lemma handle_user_model:
  "\<forall>d \<in> set (usersCollection s). user_model d \<Longrightarrow>
     \<forall>d \<in> set (usersCollection (fst (handle isUri s r))). user_model d"
  by (cases r)
    (simp_all add: sign_up_user_model post_tweets_users get_tweets_users
      put_tweets_users delete_tweets_users)

lemma serve_user_model:
  "\<forall>d \<in> set (usersCollection s). user_model d \<Longrightarrow>
     \<forall>d \<in> set (usersCollection (serve isUri s rs)). user_model d"
proof (induction rs arbitrary: s)
  case Nil
  then show ?case by simp
next
  case (Cons r rs)
  from Cons.prems have "\<forall>d \<in> set (usersCollection (fst (handle isUri s r))). user_model d"
    by (rule handle_user_model)
  from Cons.IH [OF this] show ?case by simp
qed

lemma serve_from_empty_user_model:
  "\<forall>d \<in> set (usersCollection (serve isUri store_empty rs)). user_model d"
  by (rule serve_user_model) (simp add: store_empty_def)

text \<open>
  What the listing computes for one tweet, when the users satisfy the data model: the
  tweet's own fields, and the avatar of the user document the lookup finds.
\<close>

lemma tweetWithAvatar_model:
  assumes "\<forall>d \<in> set users. user_model d"
  shows "oid (tweetWithAvatar users t) = oid t \<and>
         username (tweetWithAvatar users t) = username t \<and>
         tweet (tweetWithAvatar users t) = tweet t \<and>
         (case findOne (by_username (username t)) users of
            None \<Rightarrow> entry_avatar (tweetWithAvatar users t) = JNull
          | Some d \<Rightarrow> Some (entry_avatar (tweetWithAvatar users t)) = avatar d)"
proof (cases "findOne (by_username (username t)) users")
  case None
  then show ?thesis by (simp add: tweetWithAvatar_def or_null_def)
next
  case (Some d)
  from findOne_split [OF Some] have "d \<in> set users" by auto
  with assms have "user_model d" by blast
  then obtain a where "avatar d = Some (JStr a)" "a \<noteq> []"
    by (auto simp: user_model_def split: option.splits json.splits)
  with Some show ?thesis by (simp add: tweetWithAvatar_def or_null_def)
qed

subsection \<open>The examples, evaluated\<close>

lemma ObjectId_example_1: "ObjectId ''000000000000000000000001'' = Inr 1"
  by (simp add: ObjectId_def hex_digits_def)

lemma ObjectId_example_2: "ObjectId ''000000000000000000000002'' = Inr 2"
  by (simp add: ObjectId_def hex_digits_def)

lemma ObjectId_example_A: "ObjectId ''00000000000000000000000A'' = Inr 10"
  by (simp add: ObjectId_def hex_digits_def)

lemma ObjectId_example_bad: "ObjectId ''xyz'' = Inl BSONError"
  by (simp add: ObjectId_def)

lemma tweetSchema_body_tweet:
  "u \<noteq> [] \<Longrightarrow> t \<noteq> [] \<Longrightarrow> tweetSchema (body_tweet u t) = Inr (u, t)"
  by (simp add: tweetSchema_def body_tweet_def joi_string_required_def joi_unknown_key_def)

lemma userSchema_body_user_a:
  "userSchema https_only body_user_a = Inr (''a'', ''https://x/y.png'')"
  by (simp add: userSchema_def body_user_a_def joi_string_required_def
      joi_string_uri_required_def joi_unknown_key_def https_only_def)

lemma findOne_store_ab_1:
  "findOne (by_id 1) (tweetsCollection store_ab) =
     Some \<lparr>oid = 1, username = ''a'', tweet = ''hi''\<rparr>"
  by (simp add: store_ab_def findOne_def by_id_def)

section \<open>The listing\<close>

text \<open>
  C1. For every store whose user documents satisfy the data model (so for every store
  that requests build from the empty one), GET /tweets answers 200 with a JSON array
  that has one entry per stored tweet, the most recently inserted first. Entry \<open>i\<close>
  copies \<open>_id\<close>, \<open>username\<close> and \<open>tweet\<close> from the tweet at the mirrored position; its
  avatar is the avatar of the user document with the tweet's username, and \<open>null\<close> when
  there is no such document. The store is not changed.
\<close>

theorem get_tweets_listing:
  assumes "\<forall>d \<in> set (usersCollection s). user_model d"
  shows "\<exists>es. get_tweets s = (s, \<lparr>status = 200, body = Json es\<rparr>) \<and>
     length es = length (tweetsCollection s) \<and>
     (\<forall>i < length es.
        let t = tweetsCollection s ! (length es - 1 - i); e = es ! i in
        oid e = oid t \<and> username e = username t \<and> tweet e = tweet t \<and>
        (case findOne (by_username (username t)) (usersCollection s) of
           None \<Rightarrow> entry_avatar e = JNull
         | Some d \<Rightarrow> Some (entry_avatar e) = avatar d))"
proof -
  let ?es = "rev (map (tweetWithAvatar (usersCollection s)) (tweetsCollection s))"
  have out: "get_tweets s = (s, \<lparr>status = 200, body = Json ?es\<rparr>)"
    by (simp add: get_tweets_def send_json_def Let_def)
  have len: "length ?es = length (tweetsCollection s)" by simp
  have ent: "\<forall>i < length ?es.
        let t = tweetsCollection s ! (length ?es - 1 - i); e = ?es ! i in
        oid e = oid t \<and> username e = username t \<and> tweet e = tweet t \<and>
        (case findOne (by_username (username t)) (usersCollection s) of
           None \<Rightarrow> entry_avatar e = JNull
         | Some d \<Rightarrow> Some (entry_avatar e) = avatar d)"
  proof (intro allI impI)
    fix i assume "i < length ?es"
    then have i: "i < length (tweetsCollection s)" by simp
    define t where "t = tweetsCollection s ! (length ?es - 1 - i)"
    from i have eq: "?es ! i = tweetWithAvatar (usersCollection s) t"
      unfolding t_def by (simp add: rev_nth)
    show "let t = tweetsCollection s ! (length ?es - 1 - i); e = ?es ! i in
        oid e = oid t \<and> username e = username t \<and> tweet e = tweet t \<and>
        (case findOne (by_username (username t)) (usersCollection s) of
           None \<Rightarrow> entry_avatar e = JNull
         | Some d \<Rightarrow> Some (entry_avatar e) = avatar d)"
      unfolding Let_def t_def [symmetric] eq
      by (rule tweetWithAvatar_model [OF assms])
  qed
  from out len ent show ?thesis by blast
qed

text \<open>
  On a store with one registered user \<open>a\<close>, a tweet of \<open>a\<close> and a later tweet of the
  unregistered \<open>b\<close>: the later tweet comes first, with a \<open>null\<close> avatar; the tweet of
  \<open>a\<close> carries the avatar of \<open>a\<close>.
\<close>

theorem get_tweets_listing_witness:
  "get_tweets store_ab =
     (store_ab,
      \<lparr>status = 200,
       body = Json
         [\<lparr>oid = 2, username = ''b'', tweet = ''yo'', entry_avatar = JNull\<rparr>,
          \<lparr>oid = 1, username = ''a'', tweet = ''hi'',
           entry_avatar = JStr ''https://x/y.png''\<rparr>]\<rparr>)"
proof -
  have model: "\<forall>d \<in> set (usersCollection store_ab). user_model d"
    by (simp add: store_ab_def user_model_def)
  from get_tweets_listing [OF model] obtain es
    where out: "get_tweets store_ab = (store_ab, \<lparr>status = 200, body = Json es\<rparr>)"
      and len: "length es = length (tweetsCollection store_ab)"
      and ent: "\<forall>i < length es.
        let t = tweetsCollection store_ab ! (length es - 1 - i); e = es ! i in
        oid e = oid t \<and> username e = username t \<and> tweet e = tweet t \<and>
        (case findOne (by_username (username t)) (usersCollection store_ab) of
           None \<Rightarrow> entry_avatar e = JNull
         | Some d \<Rightarrow> Some (entry_avatar e) = avatar d)"
    by blast
  from len have two: "length es = 2" by (simp add: store_ab_def)
  from two have z: "0 < length es" and o: "1 < length es" by simp_all
  from ent [rule_format, OF z] two have "oid (es ! 0) = 2 \<and> username (es ! 0) = ''b'' \<and> tweet (es ! 0) = ''yo'' \<and>
      entry_avatar (es ! 0) = JNull"
    by (simp add: store_ab_def findOne_def by_username_def Let_def)
  then have e0: "es ! 0 = \<lparr>oid = 2, username = ''b'', tweet = ''yo'', entry_avatar = JNull\<rparr>"
    by (cases "es ! 0") simp
  from ent [rule_format, OF o] two have "oid (es ! 1) = 1 \<and> username (es ! 1) = ''a'' \<and> tweet (es ! 1) = ''hi'' \<and>
      entry_avatar (es ! 1) = JStr ''https://x/y.png''"
    by (simp add: store_ab_def findOne_def by_username_def Let_def)
  then have e1: "es ! 1 = \<lparr>oid = 1, username = ''a'', tweet = ''hi'',
      entry_avatar = JStr ''https://x/y.png''\<rparr>"
    by (cases "es ! 1") simp
  from e0 e1 two have "es =
      [\<lparr>oid = 2, username = ''b'', tweet = ''yo'', entry_avatar = JNull\<rparr>,
       \<lparr>oid = 1, username = ''a'', tweet = ''hi'', entry_avatar = JStr ''https://x/y.png''\<rparr>]"
    by (intro nth_equalityI) (auto simp: less_Suc_eq numeral_2_eq_2)
  with out show ?thesis by simp
qed

text \<open>
  C10. In the listing, the entry of a tweet whose user document exists but has an
  absent, \<open>null\<close> or empty-string avatar (or any other falsy avatar) has avatar \<open>null\<close>.
  The tweet at position \<open>i\<close> of the collection is entry \<open>n - 1 - i\<close> of the array.
\<close>

theorem get_tweets_falsy_avatar_null:
  assumes "i < length (tweetsCollection s)"
    and "findOne (by_username (username (tweetsCollection s ! i))) (usersCollection s) = Some u"
    and "avatar u = None \<or> avatar u = Some JNull \<or> avatar u = Some (JStr []) \<or>
         (\<exists>v. avatar u = Some v \<and> \<not> truthy v)"
  shows "\<exists>es. get_tweets s = (s, \<lparr>status = 200, body = Json es\<rparr>) \<and>
           length es = length (tweetsCollection s) \<and>
           entry_avatar (es ! (length (tweetsCollection s) - 1 - i)) = JNull"
proof -
  let ?n = "length (tweetsCollection s)"
  let ?es = "rev (map (tweetWithAvatar (usersCollection s)) (tweetsCollection s))"
  have out: "get_tweets s = (s, \<lparr>status = 200, body = Json ?es\<rparr>)"
    by (simp add: get_tweets_def send_json_def Let_def)
  from assms(1) have idx: "?n - 1 - i < ?n" and mirror: "?n - Suc (?n - 1 - i) = i"
    by arith+
  from idx have "?es ! (?n - 1 - i) = tweetWithAvatar (usersCollection s) (tweetsCollection s ! i)"
    using mirror by (simp add: rev_nth)
  moreover from assms(3) have "or_null (avatar u) = JNull"
    by (auto simp: or_null_def)
  ultimately have "entry_avatar (?es ! (?n - 1 - i)) = JNull"
    using assms(2) by (simp add: tweetWithAvatar_def Let_def)
  with out show ?thesis by simp
qed

text \<open>The user \<open>a\<close> has no avatar field; the tweet of \<open>a\<close> is listed with \<open>null\<close>.\<close>

theorem get_tweets_falsy_avatar_null_witness:
  "findOne (by_username ''a'') (usersCollection store_no_avatar) =
     Some \<lparr>oid = 1, username = ''a'', avatar = None\<rparr> \<and>
   (\<exists>es. get_tweets store_no_avatar = (store_no_avatar, \<lparr>status = 200, body = Json es\<rparr>) \<and>
      length es = 2 \<and> entry_avatar (es ! 0) = JNull)"
proof -
  have i: "1 < length (tweetsCollection store_no_avatar)"
    by (simp add: store_no_avatar_def)
  have f: "findOne (by_username (username (tweetsCollection store_no_avatar ! 1)))
      (usersCollection store_no_avatar) = Some \<lparr>oid = 1, username = ''a'', avatar = None\<rparr>"
    by (simp add: store_no_avatar_def findOne_def by_username_def)
  have a: "avatar \<lparr>oid = 1, username = ''a'', avatar = None\<rparr> = None \<or>
      avatar \<lparr>oid = 1, username = ''a'', avatar = None\<rparr> = Some JNull \<or>
      avatar \<lparr>oid = 1, username = ''a'', avatar = None\<rparr> = Some (JStr []) \<or>
      (\<exists>v. avatar \<lparr>oid = 1, username = ''a'', avatar = None\<rparr> = Some v \<and> \<not> truthy v)"
    by simp
  have g: "findOne (by_username ''a'') (usersCollection store_no_avatar) =
      Some \<lparr>oid = 1, username = ''a'', avatar = None\<rparr>"
    by (simp add: store_no_avatar_def findOne_def by_username_def)
  from get_tweets_falsy_avatar_null [OF i f a] obtain es
    where out: "get_tweets store_no_avatar =
        (store_no_avatar, \<lparr>status = 200, body = Json es\<rparr>)"
      and len: "length es = length (tweetsCollection store_no_avatar)"
      and nul: "entry_avatar (es ! (length (tweetsCollection store_no_avatar) - 1 - 1)) = JNull"
    by blast
  from len nul have "length es = 2" "entry_avatar (es ! 0) = JNull"
    by (simp_all add: store_no_avatar_def)
  with out g show ?thesis by blast
qed

section \<open>Sign-up\<close>

text \<open>
  C4. When a user document with the body's username is already stored, a POST /sign-up
  with a valid body is answered with 409 and the store is as before. Hence, from a
  store whose usernames are pairwise distinct, any sequence of requests leads to a store
  whose usernames are pairwise distinct.
\<close>

theorem sign_up_duplicate_409:
  "(userSchema isUri reqBody = Inr (u, a) \<and> d \<in> set (usersCollection s) \<and> username d = u
      \<longrightarrow> sign_up isUri gen s reqBody = (s, \<lparr>status = 409, body = Text\<rparr>)) \<and>
   (distinct (map username (usersCollection s0))
      \<longrightarrow> distinct (map username (usersCollection (serve isUri s0 rs))))"
proof (intro conjI impI)
  assume h: "userSchema isUri reqBody = Inr (u, a) \<and> d \<in> set (usersCollection s) \<and> username d = u"
  then have "by_username u d" by (simp add: by_username_def)
  with h obtain e where "findOne (by_username u) (usersCollection s) = Some e"
    using findOne_Some_intro [of d "usersCollection s" "by_username u"] by blast
  with h show "sign_up isUri gen s reqBody = (s, \<lparr>status = 409, body = Text\<rparr>)"
    by (simp add: sign_up_def send_text_def)
next
  assume "distinct (map username (usersCollection s0))"
  then show "distinct (map username (usersCollection (serve isUri s0 rs)))"
    by (rule serve_users_distinct)
qed

text \<open>Signing \<open>a\<close> up again; and signing \<open>a\<close> up twice from the empty store.\<close>

theorem sign_up_duplicate_409_witness:
  "sign_up https_only 7 store_ab body_user_a = (store_ab, \<lparr>status = 409, body = Text\<rparr>) \<and>
   distinct (map username (usersCollection
     (serve https_only store_empty [SignUp 1 body_user_a, SignUp 2 body_user_a])))"
proof -
  have m: "\<lparr>oid = 1, username = ''a'', avatar = Some (JStr ''https://x/y.png'')\<rparr>
      \<in> set (usersCollection store_ab)"
    by (simp add: store_ab_def)
  have d: "distinct (map username (usersCollection store_empty))"
    by (simp add: store_empty_def)
  from sign_up_duplicate_409 [of https_only body_user_a "''a''" "''https://x/y.png''"
      "\<lparr>oid = 1, username = ''a'', avatar = Some (JStr ''https://x/y.png'')\<rparr>"
      store_ab 7 store_empty "[SignUp 1 body_user_a, SignUp 2 body_user_a]"]
    userSchema_body_user_a m d
  show ?thesis by simp
qed

text \<open>
  C9. A POST /sign-up whose avatar is absent, not a string or not a URI, or whose
  username is absent or not a string, is answered with 422 and the store is as before.
\<close>

theorem sign_up_invalid_422:
  assumes "(\<forall>a. property reqBody ''avatar'' = Some (JStr a) \<longrightarrow> \<not> isUri a) \<or>
           (\<forall>u. property reqBody ''username'' \<noteq> Some (JStr u))"
  shows "sign_up isUri gen s reqBody = (s, \<lparr>status = 422, body = Text\<rparr>)"
proof (cases "userSchema isUri reqBody")
  case (Inl e)
  then show ?thesis by (simp add: sign_up_def send_text_def)
next
  case (Inr p)
  obtain u a where "p = (u, a)" by (cases p)
  with Inr have "userSchema isUri reqBody = Inr (u, a)" by simp
  from userSchema_Inr [OF this] assms have False by auto
  then show ?thesis ..
qed

text \<open>An avatar that is no URI; and a body without a username.\<close>

theorem sign_up_invalid_422_witness:
  "sign_up https_only 7 store_ab
     (JObj [(''username'', JStr ''c''), (''avatar'', JStr ''not a uri'')]) =
     (store_ab, \<lparr>status = 422, body = Text\<rparr>) \<and>
   sign_up https_only 7 store_ab (JObj [(''avatar'', JStr ''https://x/y.png'')]) =
     (store_ab, \<lparr>status = 422, body = Text\<rparr>)"
proof -
  have a: "(\<forall>a. property (JObj [(''username'', JStr ''c''), (''avatar'', JStr ''not a uri'')])
                ''avatar'' = Some (JStr a) \<longrightarrow> \<not> https_only a) \<or>
           (\<forall>u. property (JObj [(''username'', JStr ''c''), (''avatar'', JStr ''not a uri'')])
                ''username'' \<noteq> Some (JStr u))"
    by (simp add: property_def https_only_def)
  have b: "(\<forall>a. property (JObj [(''avatar'', JStr ''https://x/y.png'')])
                ''avatar'' = Some (JStr a) \<longrightarrow> \<not> https_only a) \<or>
           (\<forall>u. property (JObj [(''avatar'', JStr ''https://x/y.png'')])
                ''username'' \<noteq> Some (JStr u))"
    by (simp add: property_def https_only_def)
  from sign_up_invalid_422 [OF a] sign_up_invalid_422 [OF b] show ?thesis by simp
qed

section \<open>Posting a tweet\<close>

text \<open>
  C5. A POST /tweets whose body passes the schema but whose username has no user
  document is answered with 401, and the store (so the tweets collection) is as before.
\<close>

theorem post_tweets_unregistered_401:
  assumes "tweetSchema reqBody = Inr (u, t)"
    and "\<forall>d \<in> set (usersCollection s). username d \<noteq> u"
  shows "post_tweets gen s reqBody = (s, \<lparr>status = 401, body = Text\<rparr>)"
proof -
  from assms(2) have "findOne (by_username u) (usersCollection s) = None"
    by (simp add: findOne_None by_username_def)
  with assms(1) show ?thesis by (simp add: post_tweets_def send_text_def)
qed

theorem post_tweets_unregistered_401_witness:
  "post_tweets 3 store_ab (body_tweet ''zed'' ''hello'') =
     (store_ab, \<lparr>status = 401, body = Text\<rparr>)"
proof -
  have v: "tweetSchema (body_tweet ''zed'' ''hello'') = Inr (''zed'', ''hello'')"
    by (simp add: tweetSchema_body_tweet)
  have n: "\<forall>d \<in> set (usersCollection store_ab). username d \<noteq> ''zed''"
    by (simp add: store_ab_def)
  from post_tweets_unregistered_401 [OF v n] show ?thesis .
qed

section \<open>Updating and deleting a tweet\<close>

text \<open>
  C2. When the tweet the lookup finds under the path identity belongs to another
  username than the one in the (valid) body, PUT /tweets/:id is answered with 403 and
  the store, so that tweet and the whole tweets collection, is as before.
\<close>

theorem put_tweets_wrong_owner_403:
  assumes "tweetSchema reqBody = Inr (u, t)"
    and "ObjectId id' = Inr objectId"
    and "findOne (by_id objectId) (tweetsCollection s) = Some existingTweet"
    and "username existingTweet \<noteq> u"
  shows "put_tweets s id' reqBody = (s, \<lparr>status = 403, body = Text\<rparr>)"
  using assms by (simp add: put_tweets_def send_text_def)

theorem put_tweets_wrong_owner_403_witness:
  "put_tweets store_ab ''000000000000000000000001'' (body_tweet ''b'' ''mine now'') =
     (store_ab, \<lparr>status = 403, body = Text\<rparr>)"
proof -
  have v: "tweetSchema (body_tweet ''b'' ''mine now'') = Inr (''b'', ''mine now'')"
    by (simp add: tweetSchema_body_tweet)
  have n: "username \<lparr>oid = 1, username = ''a'', tweet = ''hi''\<rparr> \<noteq> ''b''" by simp
  from put_tweets_wrong_owner_403 [OF v ObjectId_example_1 findOne_store_ab_1 n]
  show ?thesis .
qed

text \<open>
  C3, as the handlers have it. When the path identity is malformed, or well-formed but
  the identity of no stored tweet, DELETE /tweets/:id is answered with 404, and so is
  PUT /tweets/:id when its body passes the schema; the store is as before. (The update
  handler validates the body before it looks at the identity.)
\<close>

theorem missing_tweet_404:
  assumes "case ObjectId id' of
             Inl err \<Rightarrow> True
           | Inr objectId \<Rightarrow> \<forall>d \<in> set (tweetsCollection s). oid d \<noteq> objectId"
  shows "delete_tweets s id' = (s, \<lparr>status = 404, body = Text\<rparr>) \<and>
         (\<forall>u t. tweetSchema reqBody = Inr (u, t) \<longrightarrow>
            put_tweets s id' reqBody = (s, \<lparr>status = 404, body = Text\<rparr>))"
proof (cases "ObjectId id'")
  case (Inl err)
  then show ?thesis
    by (simp add: delete_tweets_def put_tweets_def send_text_def)
next
  case (Inr objectId)
  with assms have "\<forall>d \<in> set (tweetsCollection s). \<not> by_id objectId d"
    by (simp add: by_id_def)
  then have "findOne (by_id objectId) (tweetsCollection s) = None"
    by (simp add: findOne_None)
  with Inr show ?thesis
    by (simp add: delete_tweets_def put_tweets_def send_text_def)
qed

text \<open>A malformed identity, and a well-formed one that no stored tweet has.\<close>

theorem missing_tweet_404_witness:
  "delete_tweets store_ab ''xyz'' = (store_ab, \<lparr>status = 404, body = Text\<rparr>) \<and>
   put_tweets store_ab ''xyz'' (body_tweet ''a'' ''new'') =
     (store_ab, \<lparr>status = 404, body = Text\<rparr>) \<and>
   delete_tweets store_ab ''00000000000000000000000A'' =
     (store_ab, \<lparr>status = 404, body = Text\<rparr>) \<and>
   put_tweets store_ab ''00000000000000000000000A'' (body_tweet ''a'' ''new'') =
     (store_ab, \<lparr>status = 404, body = Text\<rparr>)"
proof -
  have v: "tweetSchema (body_tweet ''a'' ''new'') = Inr (''a'', ''new'')"
    by (simp add: tweetSchema_body_tweet)
  have bad: "case ObjectId ''xyz'' of
               Inl err \<Rightarrow> True
             | Inr objectId \<Rightarrow> \<forall>d \<in> set (tweetsCollection store_ab). oid d \<noteq> objectId"
    by (simp add: ObjectId_example_bad)
  have absent: "case ObjectId ''00000000000000000000000A'' of
               Inl err \<Rightarrow> True
             | Inr objectId \<Rightarrow> \<forall>d \<in> set (tweetsCollection store_ab). oid d \<noteq> objectId"
    by (simp add: ObjectId_example_A store_ab_def)
  from missing_tweet_404 [OF bad, of "body_tweet ''a'' ''new''"]
    missing_tweet_404 [OF absent, of "body_tweet ''a'' ''new''"] v
  show ?thesis by simp
qed

text \<open>
  A PUT with a malformed identity and a body that fails the schema (the empty object)
  is answered with 422, not 404.
\<close>

theorem put_tweets_validates_first_counterexample:
  "ObjectId ''xyz'' = Inl BSONError \<and>
   put_tweets store_empty ''xyz'' (JObj []) = (store_empty, \<lparr>status = 422, body = Text\<rparr>)"
  by (simp add: ObjectId_def put_tweets_def tweetSchema_def joi_string_required_def
      send_text_def)

text \<open>
  C6. A PUT /tweets/:id that passes validation, finds the tweet and is made under the
  tweet's username is answered with 304 when the body's text is the stored text, and
  with 204 and no body otherwise.
\<close>

theorem put_tweets_304_or_204:
  assumes "tweetSchema reqBody = Inr (u, t)"
    and "ObjectId id' = Inr objectId"
    and "findOne (by_id objectId) (tweetsCollection s) = Some existingTweet"
    and "username existingTweet = u"
  shows "(t = tweet existingTweet \<longrightarrow> status (snd (put_tweets s id' reqBody)) = 304) \<and>
         (t \<noteq> tweet existingTweet \<longrightarrow>
            snd (put_tweets s id' reqBody) = \<lparr>status = 204, body = NoBody\<rparr>)"
proof -
  from findOne_split [OF assms(3)] obtain pre post
    where coll: "tweetsCollection s = pre @ existingTweet # post"
      and hit: "by_id objectId existingTweet"
      and miss: "\<forall>d \<in> set pre. \<not> by_id objectId d" by blast
  have upd: "updateOne (by_id objectId) (\<lambda>d. d\<lparr>tweet := t\<rparr>) (tweetsCollection s) =
      (pre @ existingTweet\<lparr>tweet := t\<rparr> # post,
       \<lparr>matchedCount = 1,
        modifiedCount = (if existingTweet\<lparr>tweet := t\<rparr> = existingTweet then 0 else 1)\<rparr>)"
    unfolding coll using miss hit by (rule updateOne_split)
  have same: "(existingTweet\<lparr>tweet := t\<rparr> = existingTweet) = (t = tweet existingTweet)"
    by (cases existingTweet) auto
  from assms upd same have "snd (put_tweets s id' reqBody) =
      (if t = tweet existingTweet then send_text 304 else send_empty 204)"
    by (simp add: put_tweets_def)
  then show ?thesis by (simp add: send_text_def send_empty_def)
qed

text \<open>Sending the stored text again, then a new text.\<close>

theorem put_tweets_304_or_204_witness:
  "status (snd (put_tweets store_ab ''000000000000000000000001'' (body_tweet ''a'' ''hi''))) = 304 \<and>
   snd (put_tweets store_ab ''000000000000000000000001'' (body_tweet ''a'' ''new'')) =
     \<lparr>status = 204, body = NoBody\<rparr>"
proof -
  have v1: "tweetSchema (body_tweet ''a'' ''hi'') = Inr (''a'', ''hi'')"
    by (simp add: tweetSchema_body_tweet)
  have v2: "tweetSchema (body_tweet ''a'' ''new'') = Inr (''a'', ''new'')"
    by (simp add: tweetSchema_body_tweet)
  have o: "username \<lparr>oid = 1, username = ''a'', tweet = ''hi''\<rparr> = ''a''" by simp
  from put_tweets_304_or_204 [OF v1 ObjectId_example_1 findOne_store_ab_1 o]
    put_tweets_304_or_204 [OF v2 ObjectId_example_1 findOne_store_ab_1 o]
  show ?thesis by simp
qed

text \<open>
  C7. A PUT /tweets/:id answered with 204 (or 304) has replaced the \<open>tweet\<close> field of
  the first document with the path identity by the body's text, and nothing else: that
  document keeps its \<open>_id\<close> and \<open>username\<close>, the documents before and after it are as
  they were, and so is the users collection.
\<close>

theorem put_tweets_frame:
  assumes "put_tweets s id' reqBody = (s', r)"
    and "status r = 204 \<or> status r = 304"
  shows "\<exists>objectId u new pre t t' post.
           ObjectId id' = Inr objectId \<and> tweetSchema reqBody = Inr (u, new) \<and>
           tweetsCollection s = pre @ t # post \<and>
           oid t = objectId \<and> (\<forall>d \<in> set pre. oid d \<noteq> objectId) \<and>
           tweetsCollection s' = pre @ t' # post \<and>
           oid t' = oid t \<and> username t' = username t \<and> tweet t' = new \<and>
           usersCollection s' = usersCollection s"
proof -
  from assms obtain u new where v: "tweetSchema reqBody = Inr (u, new)"
    by (cases "tweetSchema reqBody") (auto simp: put_tweets_def send_text_def)
  from assms v obtain objectId where i: "ObjectId id' = Inr objectId"
    by (cases "ObjectId id'") (auto simp: put_tweets_def send_text_def)
  from assms v i obtain t where f: "findOne (by_id objectId) (tweetsCollection s) = Some t"
    by (cases "findOne (by_id objectId) (tweetsCollection s)")
      (auto simp: put_tweets_def send_text_def)
  from findOne_split [OF f] obtain pre post
    where coll: "tweetsCollection s = pre @ t # post"
      and hit: "by_id objectId t"
      and miss: "\<forall>d \<in> set pre. \<not> by_id objectId d" by blast
  have upd: "updateOne (by_id objectId) (\<lambda>d. d\<lparr>tweet := new\<rparr>) (tweetsCollection s) =
      (pre @ t\<lparr>tweet := new\<rparr> # post,
       \<lparr>matchedCount = 1, modifiedCount = (if t\<lparr>tweet := new\<rparr> = t then 0 else 1)\<rparr>)"
    unfolding coll using miss hit by (rule updateOne_split)
  from assms v i f upd have s': "s' = s\<lparr>tweetsCollection := pre @ t\<lparr>tweet := new\<rparr> # post\<rparr>"
    by (auto simp: put_tweets_def send_text_def send_empty_def split: if_splits)
  let ?t' = "t\<lparr>tweet := new\<rparr>"
  have "tweetsCollection s' = pre @ ?t' # post" "usersCollection s' = usersCollection s"
    "oid ?t' = oid t" "username ?t' = username t" "tweet ?t' = new"
    using s' by simp_all
  moreover from hit miss have "oid t = objectId" "\<forall>d \<in> set pre. oid d \<noteq> objectId"
    by (simp_all add: by_id_def)
  ultimately show ?thesis using v i coll by blast
qed

text \<open>
  Rewriting the tweet of \<open>a\<close>: the identities and usernames of the tweets, and the
  users, are as before.
\<close>

theorem put_tweets_frame_witness:
  "status (snd (put_tweets store_ab ''000000000000000000000001'' (body_tweet ''a'' ''new''))) = 204 \<and>
   usersCollection (fst (put_tweets store_ab ''000000000000000000000001'' (body_tweet ''a'' ''new''))) =
     usersCollection store_ab \<and>
   map oid (tweetsCollection
     (fst (put_tweets store_ab ''000000000000000000000001'' (body_tweet ''a'' ''new'')))) =
     map oid (tweetsCollection store_ab) \<and>
   map username (tweetsCollection
     (fst (put_tweets store_ab ''000000000000000000000001'' (body_tweet ''a'' ''new'')))) =
     map username (tweetsCollection store_ab)"
proof -
  obtain s' r
    where p: "put_tweets store_ab ''000000000000000000000001'' (body_tweet ''a'' ''new'') = (s', r)"
    by (cases "put_tweets store_ab ''000000000000000000000001'' (body_tweet ''a'' ''new'')")
  have "snd (put_tweets store_ab ''000000000000000000000001'' (body_tweet ''a'' ''new'')) =
      \<lparr>status = 204, body = NoBody\<rparr>"
    by (simp add: put_tweets_def tweetSchema_body_tweet ObjectId_example_1
        store_ab_def findOne_def by_id_def send_empty_def)
  with p have st: "status r = 204 \<or> status r = 304" by simp
  from put_tweets_frame [OF p st] obtain pre t t' post
    where "tweetsCollection store_ab = pre @ t # post"
      and "tweetsCollection s' = pre @ t' # post"
      and "oid t' = oid t" and "username t' = username t"
      and "usersCollection s' = usersCollection store_ab"
    by blast
  with p st \<open>snd _ = _\<close> show ?thesis by simp
qed

text \<open>
  C8. A DELETE /tweets/:id whose well-formed identity is that of a stored tweet removes
  that document (the first with the identity) and no other, leaves the users collection
  alone, and is answered with 204 and no body.
\<close>

theorem delete_tweets_removes_one:
  assumes "ObjectId id' = Inr objectId"
    and "d \<in> set (tweetsCollection s)"
    and "oid d = objectId"
  shows "\<exists>pre t post.
           tweetsCollection s = pre @ t # post \<and>
           oid t = objectId \<and> (\<forall>x \<in> set pre. oid x \<noteq> objectId) \<and>
           delete_tweets s id' =
             (\<lparr>usersCollection = usersCollection s, tweetsCollection = pre @ post\<rparr>,
              \<lparr>status = 204, body = NoBody\<rparr>)"
proof -
  from assms(2,3) obtain t where f: "findOne (by_id objectId) (tweetsCollection s) = Some t"
    using findOne_Some_intro [of d "tweetsCollection s" "by_id objectId"]
    by (auto simp: by_id_def)
  from findOne_split [OF f] obtain pre post
    where coll: "tweetsCollection s = pre @ t # post"
      and hit: "by_id objectId t"
      and miss: "\<forall>x \<in> set pre. \<not> by_id objectId x" by blast
  have "deleteOne (by_id objectId) (tweetsCollection s) = pre @ post"
    unfolding coll using miss hit by (rule deleteOne_split)
  with assms(1) f have "delete_tweets s id' =
      (\<lparr>usersCollection = usersCollection s, tweetsCollection = pre @ post\<rparr>,
       \<lparr>status = 204, body = NoBody\<rparr>)"
    by (cases s) (simp add: delete_tweets_def send_empty_def)
  with coll hit miss show ?thesis by (auto simp: by_id_def)
qed

text \<open>Deleting the tweet of \<open>b\<close>: one tweet fewer, the users as before.\<close>

theorem delete_tweets_removes_one_witness:
  "status (snd (delete_tweets store_ab ''000000000000000000000002'')) = 204 \<and>
   body (snd (delete_tweets store_ab ''000000000000000000000002'')) = NoBody \<and>
   usersCollection (fst (delete_tweets store_ab ''000000000000000000000002'')) =
     usersCollection store_ab \<and>
   Suc (length (tweetsCollection (fst (delete_tweets store_ab ''000000000000000000000002'')))) =
     length (tweetsCollection store_ab)"
proof -
  have m: "\<lparr>oid = 2, username = ''b'', tweet = ''yo''\<rparr> \<in> set (tweetsCollection store_ab)"
    by (simp add: store_ab_def)
  have i: "oid \<lparr>oid = 2, username = ''b'', tweet = ''yo''\<rparr> = 2" by simp
  from delete_tweets_removes_one [OF ObjectId_example_2 m i] obtain pre t post
    where "tweetsCollection store_ab = pre @ t # post"
      and "delete_tweets store_ab ''000000000000000000000002'' =
             (\<lparr>usersCollection = usersCollection store_ab, tweetsCollection = pre @ post\<rparr>,
              \<lparr>status = 204, body = NoBody\<rparr>)"
    by blast
  then show ?thesis by simp
qed

end
